theory Spec2Isabelle
  imports Main
begin

section \<open>The host primitives that chans.go guards\<close>

text \<open>
  The package wraps four primitives of the Go language: reading through a pointer,
  \<^verbatim>\<open>close(c)\<close>, \<^verbatim>\<open>c <- v\<close> and \<^verbatim>\<open>v, ok = <-c\<close>. Their behaviour is fixed by the
  language (and tabulated in the package's README): close of a nil or of a closed channel
  panics, send on a closed channel panics, send and receive on a nil channel block forever,
  receive on a closed and drained channel yields the zero value with \<^verbatim>\<open>ok = false\<close>.

  A call is modelled as seen by the goroutine that makes it, on an explicit store. A
  channel value is nil or the address of a channel object holding its buffered elements,
  its capacity and its closed flag. A non-nil pointer or channel always designates an
  object (Go is memory safe), so both stores are total. A primitive returns, panics or
  blocks; a goroutine already parked on the other end of the channel is not part of the
  store, so a send on an open channel without buffer space and a receive on an open
  channel without a buffered element block.
\<close>

type_synonym addr = nat

type_synonym ptr = "addr option"

type_synonym 'a mem = "addr \<Rightarrow> 'a"

type_synonym chan = "addr option"

record 'a hchan =
  buf :: "'a list"
  dataqsiz :: nat
  closed :: bool

type_synonym 'a heap = "addr \<Rightarrow> 'a hchan"

datatype panic =
  NilPointerDereference
  | CloseOfNilChannel
  | CloseOfClosedChannel
  | SendOnClosedChannel

datatype 'r outcome = Returns 'r | Panics panic | Blocks

text \<open>\<^verbatim>\<open>*ptr\<close>\<close>

definition load :: "'a mem \<Rightarrow> ptr \<Rightarrow> 'a outcome" where
  "load m p = (case p of None \<Rightarrow> Panics NilPointerDereference | Some a \<Rightarrow> Returns (m a))"

text \<open>\<^verbatim>\<open>close(c)\<close>\<close>

definition closechan :: "'a heap \<Rightarrow> chan \<Rightarrow> unit outcome \<times> 'a heap" where
  "closechan h c =
     (case c of
        None \<Rightarrow> (Panics CloseOfNilChannel, h)
      | Some a \<Rightarrow>
          if closed (h a) then (Panics CloseOfClosedChannel, h)
          else (Returns (), h(a := (h a)\<lparr>closed := True\<rparr>)))"

text \<open>\<^verbatim>\<open>c <- v\<close>\<close>

definition chansend :: "'a heap \<Rightarrow> chan \<Rightarrow> 'a \<Rightarrow> unit outcome \<times> 'a heap" where
  "chansend h c v =
     (case c of
        None \<Rightarrow> (Blocks, h)
      | Some a \<Rightarrow>
          if closed (h a) then (Panics SendOnClosedChannel, h)
          else if length (buf (h a)) < dataqsiz (h a)
               then (Returns (), h(a := (h a)\<lparr>buf := buf (h a) @ [v]\<rparr>))
          else (Blocks, h))"

text \<open>\<^verbatim>\<open>v, ok = <-c\<close>, with \<open>zero\<close> the zero value of the element type.\<close>

definition chanrecv :: "'a \<Rightarrow> 'a heap \<Rightarrow> chan \<Rightarrow> ('a \<times> bool) outcome \<times> 'a heap" where
  "chanrecv zero h c =
     (case c of
        None \<Rightarrow> (Blocks, h)
      | Some a \<Rightarrow>
          (case buf (h a) of
             x # xs \<Rightarrow> (Returns (x, True), h(a := (h a)\<lparr>buf := xs\<rparr>))
           | [] \<Rightarrow> if closed (h a) then (Returns (zero, False), h) else (Blocks, h)))"

section \<open>Errors\<close>

text \<open>
  \<^verbatim>\<open>fmt.Errorf(format, args...)\<close>: the error keeps the format literal and the arguments.
  The type parameter \<^verbatim>\<open>C ~chan T\<close> is a named channel type; \<open>to_chan\<close> is the
  conversion \<^verbatim>\<open>(chan T)(ch)\<close> and \<open>nilC\<close> is the \<^verbatim>\<open>nil\<close> of type \<^verbatim>\<open>C\<close>.
  The format literals are those of chans.go; the repository's second copy of the four
  functions has the same code with bracketed literals.
\<close>

datatype chanC = AsC (to_chan: chan)

definition nilC :: chanC where
  "nilC = AsC None"

datatype 'a farg = FPtr ptr | FChan chanC | FVal 'a | FPanic panic

datatype 'a error = Errorf string "'a farg list"

datatype kind = NilChannel | ClosedChannel | NilReference | OperationFault

text \<open>The failure kind that a message of chans.go stands for.\<close>

fun kind_of :: "'a error \<Rightarrow> kind option" where
  "kind_of (Errorf f args) =
     (if f = ''Close on nil channel: %v'' \<or> f = ''Send on nil channel: %v %v''
         \<or> f = ''Receive on nil channel: %v %v'' then Some NilChannel
      else if f = ''Receive on closed channel: %v %v'' then Some ClosedChannel
      else if f = ''Deref on nil pointer: %v %v'' then Some NilReference
      else if f = ''Deref panic: %v %v %v'' \<or> f = ''Send panic: %v %v %v''
         \<or> f = ''Receive panic: %v %v %v'' \<or> f = ''Close panic: %v %v'' then Some OperationFault
      else None)"

section \<open>Deref\<close>

text \<open>
  Each function runs a closure whose deferred function recovers a panic. The closure is
  one definition (its result is the value of the captured variables when it returns), the
  deferred function another: it turns a panic of the closure into a normal return with
  \<open>err\<close> set. The only statement that can panic comes before any assignment to a
  captured variable, so at a panic these still hold their initial values.
\<close>

definition Deref_closure :: "'a mem \<Rightarrow> ptr \<Rightarrow> 'a outcome" where
  "Deref_closure m p = load m p"

definition Deref_deferred :: "ptr \<Rightarrow> 'a \<Rightarrow> 'a outcome \<Rightarrow> ('a \<times> 'a error option) outcome" where
  "Deref_deferred p x out =
     (case out of
        Returns x' \<Rightarrow> Returns (x', None)
      | Panics r \<Rightarrow> Returns (x, Some (Errorf ''Deref panic: %v %v %v'' [FPanic r, FPtr p, FVal x]))
      | Blocks \<Rightarrow> Blocks)"

definition Deref :: "'a \<Rightarrow> 'a mem \<Rightarrow> ptr \<Rightarrow> ('a \<times> 'a error option) outcome" where
  "Deref zero m p =
     (let x = zero in
      if p = None then Returns (x, Some (Errorf ''Deref on nil pointer: %v %v'' [FPtr p, FVal x]))
      else Deref_deferred p x (Deref_closure m p))"

section \<open>Send\<close>

definition Send_closure :: "'a heap \<Rightarrow> chanC \<Rightarrow> 'a \<Rightarrow> 'a error option outcome \<times> 'a heap" where
  "Send_closure h ch v =
     (let c = to_chan ch in
      if c = None
      then (Returns (Some (Errorf ''Send on nil channel: %v %v'' [FChan ch, FVal v])), h)
      else (case chansend h c v of
              (Returns u, h') \<Rightarrow> (Returns None, h')
            | (Panics r, h') \<Rightarrow> (Panics r, h')
            | (Blocks, h') \<Rightarrow> (Blocks, h')))"

definition Send_deferred ::
  "chanC \<Rightarrow> 'a \<Rightarrow> 'a error option outcome \<times> 'a heap \<Rightarrow> 'a error option outcome \<times> 'a heap" where
  "Send_deferred ch v res =
     (case res of
        (Panics r, h') \<Rightarrow>
          (Returns (Some (Errorf ''Send panic: %v %v %v'' [FPanic r, FChan ch, FVal v])), h')
      | (out, h') \<Rightarrow> (out, h'))"

definition Send :: "'a heap \<Rightarrow> chanC \<Rightarrow> 'a \<Rightarrow> 'a error option outcome \<times> 'a heap" where
  "Send h ch v =
     (if ch = nilC
      then (Returns (Some (Errorf ''Send on nil channel: %v %v'' [FChan ch, FVal v])), h)
      else Send_deferred ch v (Send_closure h ch v))"

section \<open>Receive\<close>

definition Receive_closure ::
  "'a \<Rightarrow> 'a heap \<Rightarrow> chanC \<Rightarrow> ('a \<times> 'a error option) outcome \<times> 'a heap" where
  "Receive_closure zero h ch =
     (let c = to_chan ch in
      if c = None
      then (Returns (zero, Some (Errorf ''Receive on nil channel: %v %v'' [FChan ch, FVal zero])), h)
      else (case chanrecv zero h c of
              (Returns (result, ok), h') \<Rightarrow>
                (Returns (result,
                   if \<not> ok
                   then Some (Errorf ''Receive on closed channel: %v %v'' [FChan ch, FVal result])
                   else None), h')
            | (Panics r, h') \<Rightarrow> (Panics r, h')
            | (Blocks, h') \<Rightarrow> (Blocks, h')))"

definition Receive_deferred ::
  "chanC \<Rightarrow> 'a \<Rightarrow> ('a \<times> 'a error option) outcome \<times> 'a heap
     \<Rightarrow> ('a \<times> 'a error option) outcome \<times> 'a heap" where
  "Receive_deferred ch result res =
     (case res of
        (Panics r, h') \<Rightarrow>
          (Returns (result,
             Some (Errorf ''Receive panic: %v %v %v'' [FPanic r, FChan ch, FVal result])), h')
      | (out, h') \<Rightarrow> (out, h'))"

definition Receive :: "'a \<Rightarrow> 'a heap \<Rightarrow> chanC \<Rightarrow> ('a \<times> 'a error option) outcome \<times> 'a heap" where
  "Receive zero h ch =
     (let result = zero in
      if ch = nilC
      then (Returns (result,
              Some (Errorf ''Receive on nil channel: %v %v'' [FChan ch, FVal result])), h)
      else Receive_deferred ch result (Receive_closure result h ch))"

section \<open>Close\<close>

definition Close_closure :: "'a heap \<Rightarrow> chanC \<Rightarrow> 'a error option outcome \<times> 'a heap" where
  "Close_closure h ch =
     (let c = to_chan ch in
      if c = None
      then (Returns (Some (Errorf ''Close on nil channel: %v'' [FChan ch])), h)
      else (case closechan h c of
              (Returns u, h') \<Rightarrow> (Returns None, h')
            | (Panics r, h') \<Rightarrow> (Panics r, h')
            | (Blocks, h') \<Rightarrow> (Blocks, h')))"

definition Close_deferred ::
  "chanC \<Rightarrow> 'a error option outcome \<times> 'a heap \<Rightarrow> 'a error option outcome \<times> 'a heap" where
  "Close_deferred ch res =
     (case res of
        (Panics r, h') \<Rightarrow>
          (Returns (Some (Errorf ''Close panic: %v %v'' [FPanic r, FChan ch])), h')
      | (out, h') \<Rightarrow> (out, h'))"

definition Close :: "'a heap \<Rightarrow> chanC \<Rightarrow> 'a error option outcome \<times> 'a heap" where
  "Close h ch =
     (if ch = nilC
      then (Returns (Some (Errorf ''Close on nil channel: %v'' [FChan ch])), h)
      else Close_deferred ch (Close_closure h ch))"


section \<open>Sequences of guarded calls\<close>

text \<open>
  The lifecycle state of a channel value in a store, and the effect on the store of a
  sequence of guarded calls made one after the other (on any channels of the store).
\<close>

datatype lifecycle = Absent | Open | Closed

definition lifecycle :: "'a heap \<Rightarrow> chanC \<Rightarrow> lifecycle" where
  "lifecycle h ch =
     (case to_chan ch of
        None \<Rightarrow> Absent
      | Some a \<Rightarrow> if closed (h a) then Closed else Open)"

datatype 'a op = OpClose chanC | OpSend chanC 'a | OpReceive chanC

fun step :: "'a \<Rightarrow> 'a heap \<Rightarrow> 'a op \<Rightarrow> 'a heap" where
  "step zero h (OpClose ch) = snd (Close h ch)"
| "step zero h (OpSend ch v) = snd (Send h ch v)"
| "step zero h (OpReceive ch) = snd (Receive zero h ch)"

fun run :: "'a \<Rightarrow> 'a heap \<Rightarrow> 'a op list \<Rightarrow> 'a heap" where
  "run zero h [] = h"
| "run zero h (x # xs) = run zero (step zero h x) xs"

text \<open>How many calls of the sequence are a Close of \<open>ch\<close> that returns no error.\<close>

fun successful_closes :: "'a \<Rightarrow> 'a heap \<Rightarrow> chanC \<Rightarrow> 'a op list \<Rightarrow> nat" where
  "successful_closes zero h ch [] = 0"
| "successful_closes zero h ch (x # xs) =
     (if x = OpClose ch \<and> fst (Close h ch) = Returns None then 1 else 0)
     + successful_closes zero (step zero h x) ch xs"

section \<open>A send that parks\<close>

text \<open>
  A send that finds an open channel without buffer space parks its goroutine, and other
  goroutines run. The parked sender is woken in two ways only. A receive on the channel
  takes its value, directly if nothing is buffered and else after the head of the buffer,
  and the send returns. A close of the channel wakes it as well, and the send then panics
  as a send on a closed channel does. \<open>parked_send\<close> is the rest of \<^verbatim>\<open>c <- v\<close> from
  the moment the sender has parked on the channel at \<open>a\<close>: the list holds the guarded
  calls that the other goroutines make from then on, in the order in which they take
  effect on the store; the result comes with the store at the moment the send is over.
  With no call left the sender stays parked. \<open>Send_env\<close> is Send with this send in
  the place of the one that only looks at the store at the call.
\<close>

fun parked_send :: "'a \<Rightarrow> 'a heap \<Rightarrow> addr \<Rightarrow> 'a \<Rightarrow> 'a op list \<Rightarrow> unit outcome \<times> 'a heap" where
  "parked_send zero h a v [] = (Blocks, h)"
| "parked_send zero h a v (x # xs) =
     (if x = OpClose (AsC (Some a)) then (Panics SendOnClosedChannel, step zero h x)
      else if x = OpReceive (AsC (Some a))
           then (Returns (), h(a := (h a)\<lparr>buf := tl (buf (h a) @ [v])\<rparr>))
      else parked_send zero (step zero h x) a v xs)"

definition chansend_env ::
  "'a \<Rightarrow> 'a heap \<Rightarrow> chan \<Rightarrow> 'a \<Rightarrow> 'a op list \<Rightarrow> unit outcome \<times> 'a heap" where
  "chansend_env zero h c v env =
     (case chansend h c v of
        (Blocks, h') \<Rightarrow>
          (case c of None \<Rightarrow> (Blocks, h') | Some a \<Rightarrow> parked_send zero h' a v env)
      | (out, h') \<Rightarrow> (out, h'))"

definition Send_closure_env ::
  "'a \<Rightarrow> 'a heap \<Rightarrow> chanC \<Rightarrow> 'a \<Rightarrow> 'a op list \<Rightarrow> 'a error option outcome \<times> 'a heap" where
  "Send_closure_env zero h ch v env =
     (let c = to_chan ch in
      if c = None
      then (Returns (Some (Errorf ''Send on nil channel: %v %v'' [FChan ch, FVal v])), h)
      else (case chansend_env zero h c v env of
              (Returns u, h') \<Rightarrow> (Returns None, h')
            | (Panics r, h') \<Rightarrow> (Panics r, h')
            | (Blocks, h') \<Rightarrow> (Blocks, h')))"

definition Send_env ::
  "'a \<Rightarrow> 'a heap \<Rightarrow> chanC \<Rightarrow> 'a \<Rightarrow> 'a op list \<Rightarrow> 'a error option outcome \<times> 'a heap" where
  "Send_env zero h ch v env =
     (if ch = nilC
      then (Returns (Some (Errorf ''Send on nil channel: %v %v'' [FChan ch, FVal v])), h)
      else Send_deferred ch v (Send_closure_env zero h ch v env))"

text \<open>
  An error value is descriptive when it is absent (success) or carries one of the four
  failure kinds.
\<close>

definition described :: "'a error option \<Rightarrow> bool" where
  "described e = (case e of None \<Rightarrow> True | Some x \<Rightarrow> kind_of x \<noteq> None)"

text \<open>A store all of whose channels are in the state \<open>c\<close>, for concrete instances.\<close>

definition store_of :: "'a hchan \<Rightarrow> 'a heap" where
  "store_of c = (\<lambda>a. c)"



section \<open>What each guarded call computes\<close>

text \<open>
  The closure and its deferred function put together: the result of each call by cases on
  the channel value and on the state of the channel it designates.
\<close>

lemma nilC_iff: "(ch = nilC) = (to_chan ch = None)"
  by (cases ch) (simp add: nilC_def)

lemma Close_cases:
  "Close h ch =
     (case to_chan ch of
        None \<Rightarrow> (Returns (Some (Errorf ''Close on nil channel: %v'' [FChan ch])), h)
      | Some a \<Rightarrow>
          if closed (h a)
          then (Returns (Some (Errorf ''Close panic: %v %v''
                  [FPanic CloseOfClosedChannel, FChan ch])), h)
          else (Returns None, h(a := (h a)\<lparr>closed := True\<rparr>)))"
  by (simp add: Close_def nilC_iff Close_deferred_def Close_closure_def closechan_def
      split: option.splits)

lemma Send_cases:
  "Send h ch v =
     (case to_chan ch of
        None \<Rightarrow> (Returns (Some (Errorf ''Send on nil channel: %v %v'' [FChan ch, FVal v])), h)
      | Some a \<Rightarrow>
          if closed (h a)
          then (Returns (Some (Errorf ''Send panic: %v %v %v''
                  [FPanic SendOnClosedChannel, FChan ch, FVal v])), h)
          else if length (buf (h a)) < dataqsiz (h a)
               then (Returns None, h(a := (h a)\<lparr>buf := buf (h a) @ [v]\<rparr>))
          else (Blocks, h))"
  by (simp add: Send_def nilC_iff Send_deferred_def Send_closure_def chansend_def
      split: option.splits)

lemma Receive_cases:
  "Receive zero h ch =
     (case to_chan ch of
        None \<Rightarrow>
          (Returns (zero, Some (Errorf ''Receive on nil channel: %v %v'' [FChan ch, FVal zero])), h)
      | Some a \<Rightarrow>
          (case buf (h a) of
             x # xs \<Rightarrow> (Returns (x, None), h(a := (h a)\<lparr>buf := xs\<rparr>))
           | [] \<Rightarrow>
               if closed (h a)
               then (Returns (zero, Some (Errorf ''Receive on closed channel: %v %v''
                       [FChan ch, FVal zero])), h)
               else (Blocks, h)))"
  by (simp add: Receive_def nilC_iff Receive_deferred_def Receive_closure_def
      chanrecv_def split: option.splits list.splits)

lemma Deref_cases:
  "Deref zero m p =
     (case p of
        None \<Rightarrow> Returns (zero, Some (Errorf ''Deref on nil pointer: %v %v'' [FPtr p, FVal zero]))
      | Some a \<Rightarrow> Returns (m a, None))"
  by (simp add: Deref_def Deref_deferred_def Deref_closure_def load_def split: option.splits)

section \<open>No panic escapes\<close>

text \<open>
  C1 as stated ("always returns") fails on an open channel: Receive on an open channel
  with no buffered element does not return. The underlying receive blocks, and so does
  the call. The same holds for Send on an open channel without buffer space.
\<close>

theorem Receive_open_empty_blocks:
  "fst (Receive (0::int) (store_of \<lparr>buf = [], dataqsiz = 0, closed = False\<rparr>) (AsC (Some 0)))
     = Blocks"
  by (simp add: Receive_cases store_of_def)

text \<open>
  C1 (amended). For every channel (nil, open or closed) and every pointer, none of Close,
  Send, Receive and Deref lets a panic of the underlying primitive escape. Close and Deref
  always return normally, with success or a value or with a descriptive error. Send and
  Receive return normally, with success or a value or with a descriptive error, unless the
  channel is non-nil and the underlying send or receive blocks; then the call blocks as
  the primitive does.
\<close>

theorem guarded_calls_return_or_block:
  "(\<exists>e. fst (Close h ch) = Returns e \<and> described e)
   \<and> (\<exists>x e. Deref zero m p = Returns (x, e) \<and> described e)
   \<and> (if ch \<noteq> nilC \<and> fst (chansend h (to_chan ch) v) = Blocks
       then fst (Send h ch v) = Blocks
       else \<exists>e. fst (Send h ch v) = Returns e \<and> described e)
   \<and> (if ch \<noteq> nilC \<and> fst (chanrecv zero h (to_chan ch)) = Blocks
       then fst (Receive zero h ch) = Blocks
       else \<exists>x e. fst (Receive zero h ch) = Returns (x, e) \<and> described e)
   \<and> fst (Close h ch) \<noteq> Panics r \<and> Deref zero m p \<noteq> Panics r
   \<and> fst (Send h ch v) \<noteq> Panics r \<and> fst (Receive zero h ch) \<noteq> Panics r"
proof -
  have c: "\<exists>e. fst (Close h ch) = Returns e \<and> described e"
    by (simp add: Close_cases described_def split: option.splits)
  have d: "\<exists>x e. Deref zero m p = Returns (x, e) \<and> described e"
    by (simp add: Deref_cases described_def split: option.splits)
  have s: "if ch \<noteq> nilC \<and> fst (chansend h (to_chan ch) v) = Blocks
       then fst (Send h ch v) = Blocks
       else \<exists>e. fst (Send h ch v) = Returns e \<and> described e"
    by (simp add: Send_cases nilC_iff chansend_def described_def split: option.splits)
  have r: "if ch \<noteq> nilC \<and> fst (chanrecv zero h (to_chan ch)) = Blocks
       then fst (Receive zero h ch) = Blocks
       else \<exists>x e. fst (Receive zero h ch) = Returns (x, e) \<and> described e"
    by (cases "to_chan ch"; cases "buf (h (the (to_chan ch)))";
        cases "closed (h (the (to_chan ch)))")
      (simp_all add: Receive_cases nilC_iff chanrecv_def described_def)
  have np: "fst (Close h ch) \<noteq> Panics r" "Deref zero m p \<noteq> Panics r"
    "fst (Send h ch v) \<noteq> Panics r" "fst (Receive zero h ch) \<noteq> Panics r"
    by (simp_all add: Close_cases Deref_cases Send_cases Receive_cases
        split: option.splits list.splits)
  from c d s r np show ?thesis by blast
qed

theorem guarded_calls_return_or_block_witness:
  "fst (Send (store_of \<lparr>buf = [], dataqsiz = 0, closed = False\<rparr>) (AsC (Some 0)) (42::int))
     = Blocks
   \<and> fst (Send (store_of \<lparr>buf = [], dataqsiz = 0, closed = True\<rparr>) (AsC (Some 0)) (42::int))
       \<noteq> Panics SendOnClosedChannel
   \<and> fst (Close (store_of \<lparr>buf = [], dataqsiz = 0, closed = True\<rparr> :: int heap) (AsC (Some 0)))
       \<noteq> Panics CloseOfClosedChannel"
  using guarded_calls_return_or_block
    [where h = "store_of \<lparr>buf = [], dataqsiz = 0, closed = False\<rparr>" and ch = "AsC (Some 0)"
       and v = "42::int" and zero = 0 and p = None]
    guarded_calls_return_or_block
    [where h = "store_of \<lparr>buf = [], dataqsiz = 0, closed = True\<rparr>" and ch = "AsC (Some 0)"
       and v = "42::int" and zero = 0 and p = None]
  by (simp add: chansend_def store_of_def nilC_def)

section \<open>Receive on a closed and drained channel\<close>

text \<open>
  C2. For every element type, Receive on a non-nil channel that is closed and whose buffer
  is empty returns, without blocking, the zero value together with the
  "Receive on closed channel" error: the kind ClosedChannel, not OperationFault. The store
  is unchanged.
\<close>

theorem Receive_closed_drained:
  assumes "to_chan ch = Some a" and "closed (h a)" and "buf (h a) = []"
  shows "Receive zero h ch
           = (Returns (zero, Some (Errorf ''Receive on closed channel: %v %v''
                [FChan ch, FVal zero])), h)
         \<and> kind_of (Errorf ''Receive on closed channel: %v %v'' [FChan ch, FVal zero])
             = Some ClosedChannel"
  using assms by (simp add: Receive_cases)

theorem Receive_closed_drained_witness:
  "Receive (0::int) (store_of \<lparr>buf = [], dataqsiz = 0, closed = True\<rparr>) (AsC (Some 0))
     = (Returns (0, Some (Errorf ''Receive on closed channel: %v %v''
          [FChan (AsC (Some 0)), FVal 0])), store_of \<lparr>buf = [], dataqsiz = 0, closed = True\<rparr>)"
  using Receive_closed_drained
    [of "AsC (Some 0)" 0 "store_of \<lparr>buf = [], dataqsiz = 0, closed = True\<rparr>" "0::int"]
  by (simp add: store_of_def)

section \<open>Send on a channel that is or becomes closed\<close>

lemma Send_env_cases:
  "Send_env zero h ch v env =
     (case to_chan ch of
        None \<Rightarrow> (Returns (Some (Errorf ''Send on nil channel: %v %v'' [FChan ch, FVal v])), h)
      | Some a \<Rightarrow>
          if closed (h a)
          then (Returns (Some (Errorf ''Send panic: %v %v %v''
                  [FPanic SendOnClosedChannel, FChan ch, FVal v])), h)
          else if length (buf (h a)) < dataqsiz (h a)
               then (Returns None, h(a := (h a)\<lparr>buf := buf (h a) @ [v]\<rparr>))
          else Send_deferred ch v
                 (case parked_send zero h a v env of
                    (Returns u, h') \<Rightarrow> (Returns None, h')
                  | (Panics r, h') \<Rightarrow> (Panics r, h')
                  | (Blocks, h') \<Rightarrow> (Blocks, h')))"
  by (simp add: Send_env_def nilC_iff Send_deferred_def Send_closure_env_def chansend_env_def
      chansend_def split: option.splits)

lemma Send_env_Nil: "Send_env zero h ch v [] = Send h ch v"
  by (simp add: Send_env_cases Send_cases Send_deferred_def split: option.splits)

lemma parked_step:
  assumes "\<not> closed (h a)" and "\<not> length (buf (h a)) < dataqsiz (h a)"
    and "x \<noteq> OpClose (AsC (Some a))" and "x \<noteq> OpReceive (AsC (Some a))"
  shows "step zero h x a = h a"
proof (cases x)
  case (OpClose ch)
  with assms show ?thesis
    by (cases ch) (auto simp add: Close_cases split: option.splits)
next
  case (OpSend ch w)
  with assms show ?thesis
    by (cases ch) (auto simp add: Send_cases split: option.splits)
next
  case (OpReceive ch)
  with assms show ?thesis
    by (cases ch) (auto simp add: Receive_cases split: option.splits list.splits)
qed

lemma parked_run:
  assumes "\<not> closed (h a)" and "\<not> length (buf (h a)) < dataqsiz (h a)"
    and "OpClose (AsC (Some a)) \<notin> set pre" and "OpReceive (AsC (Some a)) \<notin> set pre"
  shows "run zero h pre a = h a"
  using assms
proof (induction pre arbitrary: h)
  case Nil
  show ?case by simp
next
  case (Cons x xs)
  from Cons.prems have s: "step zero h x a = h a"
    by (intro parked_step) auto
  have "run zero (step zero h x) xs a = step zero h x a"
    by (rule Cons.IH) (use Cons.prems s in auto)
  with s show ?case by simp
qed

lemma parked_send_woken_by_close:
  assumes "OpClose (AsC (Some a)) \<notin> set pre" and "OpReceive (AsC (Some a)) \<notin> set pre"
  shows "parked_send zero h a v (pre @ OpClose (AsC (Some a)) # post)
           = (Panics SendOnClosedChannel, run zero h (pre @ [OpClose (AsC (Some a))]))"
  using assms by (induction pre arbitrary: h) auto

lemma run_snoc: "run zero h (xs @ [x]) = step zero (run zero h xs) x"
  by (induction xs arbitrary: h) simp_all

lemma Send_env_woken_by_receive:
  assumes "to_chan ch = Some a" and "\<not> closed (h a)"
    and "\<not> length (buf (h a)) < dataqsiz (h a)"
    and "OpClose ch \<notin> set pre" and "OpReceive ch \<notin> set pre"
  shows "fst (Send_env zero h ch v (pre @ OpReceive ch # post)) = Returns None"
proof -
  from assms(1) have ch: "ch = AsC (Some a)"
    by (cases ch) simp
  have "fst (parked_send zero h a v (pre @ OpReceive ch # post)) = Returns ()"
    using assms(4,5) unfolding ch by (induction pre arbitrary: h) auto
  then show ?thesis
    using assms(1,2,3)
    by (cases "parked_send zero h a v (pre @ OpReceive ch # post)")
      (simp add: Send_env_cases Send_deferred_def)
qed

text \<open>
  C3. For every value \<open>v\<close>, Send on a non-nil channel that is closed when the send is
  made, or that another goroutine closes while the send is parked on it, returns the
  "Send panic" error built from the recovered panic, of kind OperationFault. The value is
  not delivered: in the first case the store is unchanged, in the second the store is the
  one that the calls of the other goroutines produce, in which the channel is closed and
  its buffer is as it was. The value occurs only as an argument of the error. With no
  other goroutine acting, \<open>Send_env\<close> is \<open>Send\<close>.
\<close>

theorem Send_on_closed:
  assumes "to_chan ch = Some a"
  shows "(closed (h a) \<longrightarrow>
            Send h ch v
              = (Returns (Some (Errorf ''Send panic: %v %v %v''
                   [FPanic SendOnClosedChannel, FChan ch, FVal v])), h)
            \<and> Send_env zero h ch v env
              = (Returns (Some (Errorf ''Send panic: %v %v %v''
                   [FPanic SendOnClosedChannel, FChan ch, FVal v])), h))
         \<and> (\<not> closed (h a) \<and> \<not> length (buf (h a)) < dataqsiz (h a)
              \<and> OpClose ch \<notin> set pre \<and> OpReceive ch \<notin> set pre \<longrightarrow>
            Send_env zero h ch v (pre @ OpClose ch # post)
              = (Returns (Some (Errorf ''Send panic: %v %v %v''
                   [FPanic SendOnClosedChannel, FChan ch, FVal v])),
                 run zero h (pre @ [OpClose ch]))
            \<and> run zero h (pre @ [OpClose ch]) a = (h a)\<lparr>closed := True\<rparr>)
         \<and> kind_of (Errorf ''Send panic: %v %v %v''
               [FPanic SendOnClosedChannel, FChan ch, FVal v]) = Some OperationFault
         \<and> Send_env zero h ch v [] = Send h ch v"
proof -
  from assms have ch: "ch = AsC (Some a)"
    by (cases ch) simp
  have 1: "Send h ch v
              = (Returns (Some (Errorf ''Send panic: %v %v %v''
                   [FPanic SendOnClosedChannel, FChan ch, FVal v])), h)
            \<and> Send_env zero h ch v env
              = (Returns (Some (Errorf ''Send panic: %v %v %v''
                   [FPanic SendOnClosedChannel, FChan ch, FVal v])), h)" if "closed (h a)"
    using that assms by (simp add: Send_cases Send_env_cases)
  have 2: "Send_env zero h ch v (pre @ OpClose ch # post)
              = (Returns (Some (Errorf ''Send panic: %v %v %v''
                   [FPanic SendOnClosedChannel, FChan ch, FVal v])),
                 run zero h (pre @ [OpClose ch]))
            \<and> run zero h (pre @ [OpClose ch]) a = (h a)\<lparr>closed := True\<rparr>"
    if p: "\<not> closed (h a)" "\<not> length (buf (h a)) < dataqsiz (h a)"
      "OpClose ch \<notin> set pre" "OpReceive ch \<notin> set pre"
  proof -
    from p ch have w: "parked_send zero h a v (pre @ OpClose ch # post)
           = (Panics SendOnClosedChannel, run zero h (pre @ [OpClose ch]))"
      by (simp add: parked_send_woken_by_close)
    from p ch have r: "run zero h pre a = h a"
      by (simp add: parked_run)
    with p assms have "run zero h (pre @ [OpClose ch]) a = (h a)\<lparr>closed := True\<rparr>"
      by (simp add: run_snoc Close_cases)
    with w p assms show ?thesis
      by (simp add: Send_env_cases Send_deferred_def)
  qed
  from 1 2 show ?thesis
    by (simp add: Send_env_Nil)
qed

theorem Send_on_closed_witness:
  "Send (store_of \<lparr>buf = [], dataqsiz = 0, closed = True\<rparr>) (AsC (Some 0)) (42::int)
     = (Returns (Some (Errorf ''Send panic: %v %v %v''
          [FPanic SendOnClosedChannel, FChan (AsC (Some 0)), FVal 42])),
        store_of \<lparr>buf = [], dataqsiz = 0, closed = True\<rparr>)
   \<and> fst (Send_env 0 (store_of \<lparr>buf = [], dataqsiz = 0, closed = False\<rparr>) (AsC (Some 0)) (42::int)
        ([OpSend (AsC (Some 1)) 7, OpSend (AsC (Some 0)) 8]
         @ OpClose (AsC (Some 0)) # [OpReceive (AsC (Some 0))]))
     = Returns (Some (Errorf ''Send panic: %v %v %v''
          [FPanic SendOnClosedChannel, FChan (AsC (Some 0)), FVal 42]))
   \<and> run 0 (store_of \<lparr>buf = [], dataqsiz = 0, closed = False\<rparr> :: int heap)
        ([OpSend (AsC (Some 1)) 7, OpSend (AsC (Some 0)) 8] @ [OpClose (AsC (Some 0))]) 0
     = \<lparr>buf = [], dataqsiz = 0, closed = True\<rparr>"
  using Send_on_closed
    [of "AsC (Some 0)" 0 "store_of \<lparr>buf = [], dataqsiz = 0, closed = True\<rparr>" "42::int"]
    Send_on_closed
    [of "AsC (Some 0)" 0 "store_of \<lparr>buf = [], dataqsiz = 0, closed = False\<rparr>" "42::int" 0 "[]"
       "[OpSend (AsC (Some 1)) 7, OpSend (AsC (Some 0)) 8]" "[OpReceive (AsC (Some 0))]"]
  by (simp add: store_of_def)

section \<open>Close on a closed channel\<close>

text \<open>
  C4. Close on a non-nil channel that is already closed returns the "Close panic" error
  built from the recovered panic, of kind OperationFault, and leaves the store as it is.
  A second Close of the same non-nil channel returns that error whatever the first one
  did.
\<close>

theorem Close_on_closed:
  "(to_chan ch = Some a \<and> closed (h a) \<longrightarrow>
      Close h ch
        = (Returns (Some (Errorf ''Close panic: %v %v''
             [FPanic CloseOfClosedChannel, FChan ch])), h)
      \<and> kind_of (Errorf ''Close panic: %v %v'' [FPanic CloseOfClosedChannel, FChan ch :: 'a farg])
          = Some OperationFault)
   \<and> (ch \<noteq> nilC \<longrightarrow>
        Close (snd (Close h ch)) ch
          = (Returns (Some (Errorf ''Close panic: %v %v''
               [FPanic CloseOfClosedChannel, FChan ch])), snd (Close h ch)))"
  by (cases "to_chan ch") (simp_all add: Close_cases nilC_iff)

theorem Close_on_closed_witness:
  "Close (store_of \<lparr>buf = [], dataqsiz = 0, closed = True\<rparr> :: int heap) (AsC (Some 0))
     = (Returns (Some (Errorf ''Close panic: %v %v''
          [FPanic CloseOfClosedChannel, FChan (AsC (Some 0))])),
        store_of \<lparr>buf = [], dataqsiz = 0, closed = True\<rparr>)
   \<and> fst (Close (snd (Close (store_of \<lparr>buf = [], dataqsiz = 0, closed = False\<rparr> :: int heap)
                (AsC (Some 0)))) (AsC (Some 0)))
     = Returns (Some (Errorf ''Close panic: %v %v''
          [FPanic CloseOfClosedChannel, FChan (AsC (Some 0))]))"
  using Close_on_closed
    [of "AsC (Some 0)" 0 "store_of \<lparr>buf = [], dataqsiz = 0, closed = True\<rparr> :: int heap"]
    Close_on_closed
    [of "AsC (Some 0)" 0 "store_of \<lparr>buf = [], dataqsiz = 0, closed = False\<rparr> :: int heap"]
  by (simp add: store_of_def nilC_def)

section \<open>Nil arguments\<close>

text \<open>
  C5. On a nil channel Close, Send and Receive return the "on nil channel" error (kind
  NilChannel), and Deref on a nil pointer returns the "on nil pointer" error (kind
  NilReference); Receive and Deref return the zero value with it. The call returns (it
  does not block) and the store is unchanged. The check comes before the primitive: had
  the nil value reached it, close and the pointer read would have panicked and send and
  receive would have blocked.
\<close>

theorem nil_argument_rejected_first:
  "Close h nilC = (Returns (Some (Errorf ''Close on nil channel: %v'' [FChan nilC])), h)
   \<and> Send h nilC v
       = (Returns (Some (Errorf ''Send on nil channel: %v %v'' [FChan nilC, FVal v])), h)
   \<and> Receive zero h nilC
       = (Returns (zero, Some (Errorf ''Receive on nil channel: %v %v''
            [FChan nilC, FVal zero])), h)
   \<and> Deref zero m None
       = Returns (zero, Some (Errorf ''Deref on nil pointer: %v %v'' [FPtr None, FVal zero]))
   \<and> kind_of (Errorf ''Close on nil channel: %v'' [FChan nilC :: 'a farg]) = Some NilChannel
   \<and> kind_of (Errorf ''Send on nil channel: %v %v'' [FChan nilC, FVal v]) = Some NilChannel
   \<and> kind_of (Errorf ''Receive on nil channel: %v %v'' [FChan nilC, FVal zero])
       = Some NilChannel
   \<and> kind_of (Errorf ''Deref on nil pointer: %v %v'' [FPtr None, FVal zero])
       = Some NilReference
   \<and> closechan h (to_chan nilC) = (Panics CloseOfNilChannel, h)
   \<and> chansend h (to_chan nilC) v = (Blocks, h)
   \<and> chanrecv zero h (to_chan nilC) = (Blocks, h)
   \<and> load m None = Panics NilPointerDereference"
  by (simp add: Close_def Send_def Receive_def Deref_def nilC_def closechan_def chansend_def
      chanrecv_def load_def)

section \<open>Deref of a valid and of a nil pointer\<close>

text \<open>
  C6. For every element type, Deref of a non-nil pointer returns the referent with no
  error, and Deref of a nil pointer returns the zero value together with the
  "Deref on nil pointer" error, whose kind is NilReference.
\<close>

theorem Deref_valid_and_nil:
  "Deref zero m (Some a) = Returns (m a, None)
   \<and> Deref zero m None
       = Returns (zero, Some (Errorf ''Deref on nil pointer: %v %v'' [FPtr None, FVal zero]))
   \<and> kind_of (Errorf ''Deref on nil pointer: %v %v'' [FPtr None, FVal zero :: 'a farg])
       = Some NilReference"
  by (simp add: Deref_def Deref_deferred_def Deref_closure_def load_def)

section \<open>The lifecycle of a channel\<close>

lemma closed_step: "closed (h a) \<Longrightarrow> closed (step zero h x a)"
  by (cases x) (auto simp add: Close_cases Send_cases Receive_cases
      split: option.splits list.splits)

lemma closed_run: "closed (h a) \<Longrightarrow> closed (run zero h ops a)"
  by (induction ops arbitrary: h) (simp_all add: closed_step)

lemma run_append: "run zero h (xs @ ys) = run zero (run zero h xs) ys"
  by (induction xs arbitrary: h) simp_all

lemma lifecycle_Closed_iff: "(lifecycle h ch = Closed) = (\<exists>a. to_chan ch = Some a \<and> closed (h a))"
  by (simp add: lifecycle_def split: option.splits)

lemma lifecycle_Absent_iff: "(lifecycle h ch = Absent) = (to_chan ch = None)"
  by (simp add: lifecycle_def split: option.splits)

lemma lifecycle_Open_iff: "(lifecycle h ch = Open) = (\<exists>a. to_chan ch = Some a \<and> \<not> closed (h a))"
  by (simp add: lifecycle_def split: option.splits)

lemma Close_fails_unless_Open:
  "lifecycle h ch \<noteq> Open \<Longrightarrow> fst (Close h ch) \<noteq> Returns None"
  by (cases "to_chan ch") (auto simp add: lifecycle_def Close_cases split: if_splits)

lemma Close_makes_Closed:
  "fst (Close h ch) = Returns None \<Longrightarrow> lifecycle (snd (Close h ch)) ch = Closed"
  by (simp add: lifecycle_def Close_cases split: option.splits if_splits)

lemma not_Open_step: "lifecycle h ch \<noteq> Open \<Longrightarrow> lifecycle (step zero h x) ch \<noteq> Open"
  by (cases "to_chan ch") (auto simp add: lifecycle_def closed_step split: if_splits)

lemma successful_closes_bound:
  "successful_closes zero h ch ops \<le> (if lifecycle h ch = Open then 1 else 0)"
proof (induction ops arbitrary: h)
  case Nil
  show ?case by simp
next
  case (Cons x xs)
  show ?case
  proof (cases "x = OpClose ch \<and> fst (Close h ch) = Returns None")
    case True
    then have "lifecycle (step zero h x) ch = Closed"
      by (simp add: Close_makes_Closed)
    with Cons.IH [of "step zero h x"] have "successful_closes zero (step zero h x) ch xs = 0"
      by simp
    moreover from True have "lifecycle h ch = Open"
      using Close_fails_unless_Open by blast
    ultimately show ?thesis using True by simp
  next
    case False
    then have "successful_closes zero h ch (x # xs) = successful_closes zero (step zero h x) ch xs"
      by auto
    also have "\<dots> \<le> (if lifecycle (step zero h x) ch = Open then 1 else 0)"
      by (rule Cons.IH)
    also have "\<dots> \<le> (if lifecycle h ch = Open then 1 else 0)"
      using not_Open_step [of h ch zero x] by auto
    finally show ?thesis .
  qed
qed

lemma drain_closed:
  "to_chan ch = Some a \<Longrightarrow> closed (h a) \<Longrightarrow>
     buf (run zero h (replicate n (OpReceive ch)) a) = drop n (buf (h a))"
proof (induction n arbitrary: h)
  case 0
  show ?case by simp
next
  case (Suc n)
  show ?case
  proof (cases "buf (h a)")
    case Nil
    with Suc.prems have "step zero h (OpReceive ch) = h"
      by (simp add: Receive_cases)
    moreover have "buf (run zero h (replicate n (OpReceive ch)) a) = drop n (buf (h a))"
      by (rule Suc.IH) (simp_all add: Suc.prems)
    ultimately show ?thesis using Nil by simp
  next
    case (Cons x xs)
    with Suc.prems have s: "step zero h (OpReceive ch) = h(a := (h a)\<lparr>buf := xs\<rparr>)"
      by (simp add: Receive_cases)
    have "buf (run zero (h(a := (h a)\<lparr>buf := xs\<rparr>)) (replicate n (OpReceive ch)) a)
            = drop n (buf ((h(a := (h a)\<lparr>buf := xs\<rparr>)) a))"
      by (rule Suc.IH) (simp_all add: Suc.prems)
    with s Cons show ?thesis by simp
  qed
qed


text \<open>
  C7. Across every sequence of guarded calls the lifecycle state only moves one way: an
  absent channel stays absent, a channel that is closed at some point of the sequence is
  closed at every later point, and an open channel never becomes absent. Close on an open
  channel returns no error and makes it closed; once the elements buffered before the
  Close have been received, Receive returns the "Receive on closed channel" error (kind
  ClosedChannel), and no error of Receive has the kind OperationFault. Close returns no
  error only on an open channel; Send, Receive and Close of another channel never change
  the lifecycle state of a channel; and in any sequence at most one Close of a given
  channel returns no error.
\<close>

theorem lifecycle_monotonic:
  "(lifecycle h ch = Absent \<longrightarrow> lifecycle (run zero h ops) ch = Absent)
   \<and> (lifecycle (run zero h ops) ch = Closed \<longrightarrow>
        lifecycle (run zero h (ops @ ops')) ch = Closed)
   \<and> (lifecycle h ch = Open \<longrightarrow> lifecycle (run zero h ops) ch \<noteq> Absent)
   \<and> (lifecycle h ch = Open \<longrightarrow>
        fst (Close h ch) = Returns None \<and> lifecycle (snd (Close h ch)) ch = Closed
        \<and> (let n = length (buf (h (the (to_chan ch))));
                h' = run zero (snd (Close h ch)) (replicate n (OpReceive ch))
            in Receive zero h' ch
                 = (Returns (zero, Some (Errorf ''Receive on closed channel: %v %v''
                      [FChan ch, FVal zero])), h')))
   \<and> (fst (Receive zero h ch) = Returns (x, Some e) \<longrightarrow> kind_of e \<noteq> Some OperationFault)
   \<and> (lifecycle h ch \<noteq> Open \<longrightarrow> fst (Close h ch) \<noteq> Returns None)
   \<and> lifecycle (snd (Send h ch' v)) ch = lifecycle h ch
   \<and> lifecycle (snd (Receive zero h ch')) ch = lifecycle h ch
   \<and> (ch' \<noteq> ch \<longrightarrow> lifecycle (snd (Close h ch')) ch = lifecycle h ch)
   \<and> successful_closes zero h ch ops \<le> 1"
proof -
  have 1: "lifecycle h ch = Absent \<longrightarrow> lifecycle (run zero h ops) ch = Absent"
    by (simp add: lifecycle_Absent_iff)
  have 2: "lifecycle (run zero h ops) ch = Closed \<longrightarrow>
        lifecycle (run zero h (ops @ ops')) ch = Closed"
    by (auto simp add: lifecycle_Closed_iff run_append closed_run)
  have 3: "lifecycle h ch = Open \<longrightarrow> lifecycle (run zero h ops) ch \<noteq> Absent"
    by (auto simp add: lifecycle_Absent_iff lifecycle_Open_iff)
  have 4: "fst (Close h ch) = Returns None \<and> lifecycle (snd (Close h ch)) ch = Closed
        \<and> (let n = length (buf (h (the (to_chan ch))));
                h' = run zero (snd (Close h ch)) (replicate n (OpReceive ch))
            in Receive zero h' ch
                 = (Returns (zero, Some (Errorf ''Receive on closed channel: %v %v''
                      [FChan ch, FVal zero])), h'))" if o: "lifecycle h ch = Open"
  proof -
    from o obtain a where a: "to_chan ch = Some a" "\<not> closed (h a)"
      by (auto simp add: lifecycle_Open_iff)
    define h1 where "h1 = h(a := (h a)\<lparr>closed := True\<rparr>)"
    from a have c: "Close h ch = (Returns None, h1)"
      by (simp add: Close_cases h1_def)
    have c1: "closed (h1 a)" and b1: "buf (h1 a) = buf (h a)"
      by (simp_all add: h1_def)
    define h' where "h' = run zero h1 (replicate (length (buf (h a))) (OpReceive ch))"
    have "buf (h' a) = []"
      unfolding h'_def by (simp add: drain_closed a(1) c1 b1)
    moreover have "closed (h' a)"
      unfolding h'_def by (simp add: closed_run c1)
    ultimately have "Receive zero h' ch
                 = (Returns (zero, Some (Errorf ''Receive on closed channel: %v %v''
                      [FChan ch, FVal zero])), h')"
      using a(1) by (simp add: Receive_cases)
    with c c1 a(1) show ?thesis
      by (simp add: lifecycle_Closed_iff h'_def Let_def)
  qed
  have 5: "fst (Receive zero h ch) = Returns (x, Some e) \<longrightarrow> kind_of e \<noteq> Some OperationFault"
    by (auto simp add: Receive_cases split: option.splits list.splits if_splits)
  have 6: "lifecycle h ch \<noteq> Open \<longrightarrow> fst (Close h ch) \<noteq> Returns None"
    using Close_fails_unless_Open by blast
  have 7: "lifecycle (snd (Send h ch' v)) ch = lifecycle h ch"
    by (simp add: lifecycle_def Send_cases split: option.splits)
  have 8: "lifecycle (snd (Receive zero h ch')) ch = lifecycle h ch"
    by (simp add: lifecycle_def Receive_cases split: option.splits list.splits)
  have 9: "successful_closes zero h ch ops \<le> 1"
    using successful_closes_bound [of zero h ch ops] by (simp split: if_splits)
  have 10: "ch' \<noteq> ch \<longrightarrow> lifecycle (snd (Close h ch')) ch = lifecycle h ch"
    by (cases ch; cases ch') (auto simp add: lifecycle_def Close_cases split: option.splits)
  from 1 2 3 4 5 6 7 8 9 10 show ?thesis by blast
qed


theorem lifecycle_monotonic_witness:
  "lifecycle (store_of \<lparr>buf = [], dataqsiz = 1, closed = False\<rparr> :: int heap) (AsC (Some 0)) = Open
   \<and> fst (Close (store_of \<lparr>buf = [], dataqsiz = 1, closed = False\<rparr> :: int heap) (AsC (Some 0)))
       = Returns None
   \<and> lifecycle (run 0 (store_of \<lparr>buf = [], dataqsiz = 1, closed = False\<rparr> :: int heap)
         [OpSend (AsC (Some 0)) 5, OpClose (AsC (Some 0))]) (AsC (Some 0)) = Closed
   \<and> lifecycle (run 0 (store_of \<lparr>buf = [], dataqsiz = 1, closed = False\<rparr> :: int heap)
         ([OpSend (AsC (Some 0)) 5, OpClose (AsC (Some 0))]
          @ [OpClose (AsC (Some 0)), OpSend (AsC (Some 0)) 6, OpReceive (AsC (Some 0)),
             OpReceive (AsC (Some 0))])) (AsC (Some 0)) = Closed
   \<and> successful_closes 0 (store_of \<lparr>buf = [], dataqsiz = 1, closed = False\<rparr> :: int heap)
        (AsC (Some 0))
        [OpSend (AsC (Some 0)) 5, OpClose (AsC (Some 0)), OpClose (AsC (Some 0))] = 1
   \<and> lifecycle (store_of \<lparr>buf = [], dataqsiz = 1, closed = False\<rparr> :: int heap) nilC = Absent
   \<and> lifecycle (run 0 (store_of \<lparr>buf = [], dataqsiz = 1, closed = False\<rparr> :: int heap)
         [OpClose nilC, OpSend nilC 5, OpReceive nilC, OpClose (AsC (Some 0))]) nilC = Absent
   \<and> lifecycle (snd (Close (store_of \<lparr>buf = [], dataqsiz = 1, closed = False\<rparr> :: int heap)
         (AsC (Some 1)))) (AsC (Some 0)) = Open"
  using lifecycle_monotonic
    [where h = "store_of \<lparr>buf = [], dataqsiz = 1, closed = False\<rparr> :: int heap"
       and ch = "AsC (Some 0)" and zero = 0 and ch' = "AsC (Some 1)"
       and ops = "[OpSend (AsC (Some 0)) 5, OpClose (AsC (Some 0))]"
       and ops' = "[OpClose (AsC (Some 0)), OpSend (AsC (Some 0)) 6, OpReceive (AsC (Some 0)),
             OpReceive (AsC (Some 0))]"]
    lifecycle_monotonic
    [where h = "store_of \<lparr>buf = [], dataqsiz = 1, closed = False\<rparr> :: int heap"
       and ch = nilC and zero = 0
       and ops = "[OpClose nilC, OpSend nilC 5, OpReceive nilC, OpClose (AsC (Some 0))]"]
  by (simp add: lifecycle_def store_of_def nilC_def Close_cases Send_cases Receive_cases)

section \<open>The nil check inside the closure\<close>

text \<open>
  C9. In Send, Receive and Close the nil check on the converted channel inside the
  closure is never taken once the outer check has passed: if the argument is not the nil
  of its type, its conversion to the underlying channel type is not nil, the closure is
  the call of the primitive followed by the handling of its result, and the closure does
  not return the "on nil channel" error.
\<close>

theorem inner_nil_check_unreachable:
  assumes "ch \<noteq> nilC"
  shows "to_chan ch \<noteq> None
    \<and> Send_closure h ch v
        = (case chansend h (to_chan ch) v of
             (Returns u, h') \<Rightarrow> (Returns None, h')
           | (Panics r, h') \<Rightarrow> (Panics r, h')
           | (Blocks, h') \<Rightarrow> (Blocks, h'))
    \<and> Receive_closure zero h ch
        = (case chanrecv zero h (to_chan ch) of
             (Returns (result, ok), h') \<Rightarrow>
               (Returns (result,
                  if \<not> ok
                  then Some (Errorf ''Receive on closed channel: %v %v'' [FChan ch, FVal result])
                  else None), h')
           | (Panics r, h') \<Rightarrow> (Panics r, h')
           | (Blocks, h') \<Rightarrow> (Blocks, h'))
    \<and> Close_closure h ch
        = (case closechan h (to_chan ch) of
             (Returns u, h') \<Rightarrow> (Returns None, h')
           | (Panics r, h') \<Rightarrow> (Panics r, h')
           | (Blocks, h') \<Rightarrow> (Blocks, h'))
    \<and> fst (Send_closure h ch v)
        \<noteq> Returns (Some (Errorf ''Send on nil channel: %v %v'' [FChan ch, FVal v]))
    \<and> fst (Receive_closure zero h ch)
        \<noteq> Returns (zero, Some (Errorf ''Receive on nil channel: %v %v'' [FChan ch, FVal zero]))
    \<and> fst (Close_closure h ch)
        \<noteq> Returns (Some (Errorf ''Close on nil channel: %v'' [FChan ch]))"
proof -
  from assms obtain a where a: "to_chan ch = Some a"
    by (auto simp add: nilC_iff)
  have 1: "fst (Send_closure h ch v)
        \<noteq> Returns (Some (Errorf ''Send on nil channel: %v %v'' [FChan ch, FVal v]))"
    by (simp add: a Send_closure_def chansend_def)
  have 2: "fst (Receive_closure zero h ch)
        \<noteq> Returns (zero, Some (Errorf ''Receive on nil channel: %v %v'' [FChan ch, FVal zero]))"
    by (simp add: a Receive_closure_def chanrecv_def split: list.splits)
  have 3: "fst (Close_closure h ch)
        \<noteq> Returns (Some (Errorf ''Close on nil channel: %v'' [FChan ch]))"
    by (simp add: a Close_closure_def closechan_def)
  from 1 2 3 show ?thesis
    by (simp add: a Send_closure_def Receive_closure_def Close_closure_def)
qed

theorem inner_nil_check_unreachable_witness:
  "AsC (Some 0) \<noteq> nilC \<and> to_chan (AsC (Some 0)) \<noteq> None
   \<and> fst (Close_closure (store_of \<lparr>buf = [], dataqsiz = 0, closed = False\<rparr> :: int heap)
        (AsC (Some 0)))
       \<noteq> Returns (Some (Errorf ''Close on nil channel: %v'' [FChan (AsC (Some 0))]))"
proof -
  have n: "AsC (Some 0) \<noteq> nilC" by (simp add: nilC_def)
  from inner_nil_check_unreachable
    [OF n, where h = "store_of \<lparr>buf = [], dataqsiz = 0, closed = False\<rparr> :: int heap"
       and v = 0 and zero = 0] n
  show ?thesis by blast
qed

section \<open>The value that comes with an error of Receive\<close>

text \<open>
  C10. Whenever Receive returns an error (nil channel, closed and drained channel, or a
  recovered panic), the value returned with it is the zero value of the element type; a
  value other than the zero value is only returned with no error.
\<close>

theorem Receive_error_value_zero:
  "(Receive zero h ch = (Returns (x, Some e), h') \<longrightarrow> x = zero)
   \<and> (Receive zero h ch = (Returns (x, err), h') \<and> x \<noteq> zero \<longrightarrow> err = None)"
  by (auto simp add: Receive_cases split: option.splits list.splits if_splits)

theorem Receive_error_value_zero_witness:
  "Receive (0::int) (store_of \<lparr>buf = [], dataqsiz = 0, closed = True\<rparr>) (AsC (Some 0))
     = (Returns (0, Some (Errorf ''Receive on closed channel: %v %v''
          [FChan (AsC (Some 0)), FVal 0])), store_of \<lparr>buf = [], dataqsiz = 0, closed = True\<rparr>)
   \<and> Receive (0::int) (store_of \<lparr>buf = [7], dataqsiz = 1, closed = True\<rparr>) (AsC (Some 0))
     = (Returns (7, None),
        (store_of \<lparr>buf = [7], dataqsiz = 1, closed = True\<rparr>)
          (0 := \<lparr>buf = [], dataqsiz = 1, closed = True\<rparr>))"
  using Receive_error_value_zero
    [where zero = "0::int" and h = "store_of \<lparr>buf = [], dataqsiz = 0, closed = True\<rparr>"
       and ch = "AsC (Some 0)"]
    Receive_error_value_zero
    [where zero = "0::int" and h = "store_of \<lparr>buf = [7], dataqsiz = 1, closed = True\<rparr>"
       and ch = "AsC (Some 0)" and x = 7 and err = None]
  by (simp add: Receive_cases store_of_def)

end
